theory Spec2Isabelle
  imports Complex_Main "HOL-Library.Log_Nat"
begin

section \<open>Data model (types.ts)\<close>

text \<open>
  A JavaScript \<open>number\<close> held in a field is modelled as the rational it denotes: prices,
  quantities, the ratings of reviews and epoch-millisecond timestamps are of this type.
  An optional field (\<open>f?: T\<close>), and a field that the code reads through \<open>x || default\<close>
  because the stored document may lack it, is an \<open>option\<close>; \<open>None\<close> stands for
  \<open>undefined\<close> and \<open>null\<close>.
\<close>

type_synonym number = rat

subsection \<open>Double-precision results\<close>

text \<open>
  The rating of a product is the result of a division, and a quotient of whole numbers is
  in general not a double: the division rounds.  The results of the rating arithmetic are
  therefore values of \<open>JsNumber\<close>: a finite double, given by the rational it denotes (the
  two zeros are one value), an infinity or \<open>NaN\<close>.

  \<open>roundDouble\<close> is IEEE 754 binary64 rounding to nearest, ties to even, with an
  unbounded exponent above: the result is the multiple of the quantum \<open>2 powi q\<close> nearest
  to \<open>x\<close>, where \<open>q\<close> is the binade of \<open>x\<close> less 52 and at least \<open>-1074\<close> (subnormal
  numbers).  \<open>toDouble\<close> turns a result of magnitude \<open>2 ^ 1024\<close> or more into an infinity.
\<close>

definition roundEven :: "rat \<Rightarrow> int" where
  "roundEven y =
     (let f = \<lfloor>y\<rfloor>; d = y - of_int f
      in if d < 1 / 2 then f else if 1 / 2 < d then f + 1 else if even f then f else f + 1)"

text \<open>The binade of \<open>x \<noteq> 0\<close> is the \<open>e\<close> with \<open>2 powi e \<le> \<bar>x\<bar> < 2 powi (e + 1)\<close>.\<close>

definition binadeGe1 :: "rat \<Rightarrow> int" where
  "binadeGe1 y = int (floorlog 2 (nat \<lfloor>y\<rfloor>)) - 1"

definition binade :: "rat \<Rightarrow> int" where
  "binade x =
     (if 1 \<le> \<bar>x\<bar> then binadeGe1 \<bar>x\<bar>
      else let k = binadeGe1 (1 / \<bar>x\<bar>)
           in if 1 / \<bar>x\<bar> = 2 powi k then - k else - k - 1)"

definition roundDouble :: "rat \<Rightarrow> rat" where
  "roundDouble x =
     (if x = 0 then 0
      else let q = max (binade x) (- 1022) - 52
           in of_int (roundEven (x / 2 powi q)) * 2 powi q)"

datatype JsNumber = Finite rat | Infinity | NegInfinity | NaN

definition toDouble :: "rat \<Rightarrow> JsNumber" where
  "toDouble x =
     (let y = roundDouble x
      in if 2 ^ 1024 \<le> \<bar>y\<bar> then (if 0 < x then Infinity else NegInfinity) else Finite y)"

text \<open>\<open>acc + r.rating\<close>, for a finite \<open>r.rating\<close>\<close>

fun jsAdd :: "JsNumber \<Rightarrow> number \<Rightarrow> JsNumber" where
  "jsAdd (Finite a) b = toDouble (a + b)"
| "jsAdd Infinity b = Infinity"
| "jsAdd NegInfinity b = NegInfinity"
| "jsAdd NaN b = NaN"

text \<open>\<open>totalRating / updatedReviews.length\<close>: the divisor is the length of an array\<close>

fun jsDivide :: "JsNumber \<Rightarrow> nat \<Rightarrow> JsNumber" where
  "jsDivide (Finite a) n =
     (if n = 0 then (if a = 0 then NaN else if 0 < a then Infinity else NegInfinity)
      else toDouble (a / of_nat n))"
| "jsDivide Infinity n = Infinity"
| "jsDivide NegInfinity n = NegInfinity"
| "jsDivide NaN n = NaN"

record Review =
  review_id :: string
  review_userId :: string
  userName :: string
  review_rating :: number
  review_comment :: string
  date :: number

text \<open>
  \<open>deliveryFee\<close> is not declared in \<open>types.ts\<close>, but the admin product form writes it and
  \<open>CheckoutPage\<close> reads it from every cart line, so it is a field of the product document.
\<close>

record Product =
  product_id :: string
  product_name :: string
  description :: string
  shortDescription :: "string option"
  price :: number
  offerPrice :: "number option"
  category :: string
  imageUrl :: string
  images :: "string list"
  videoUrl :: "string option"
  stock :: number
  rating :: JsNumber
  reviews :: "Review list option"
  deliveryFee :: "number option"

record CartItem = Product +
  quantity :: number

record Address =
  address_id :: string
  label :: string
  address_name :: string
  address :: string
  city :: string
  district :: string
  address_phone :: string

datatype Role = admin | customer

record User =
  user_id :: string
  email :: string
  user_name :: string
  phone :: string
  role :: Role
  addresses :: "Address list"
  wishlist :: "string list"

datatype OrderStatus = Pending | Shipped | Delivered | Cancelled

datatype PaymentMethod = Card | COD

record OrderStatusUpdate =
  update_status :: OrderStatus
  update_comment :: "string option"
  timestamp :: number

record Order =
  order_id :: string
  order_userId :: string
  items :: "CartItem list"
  totalAmount :: number
  order_deliveryFee :: number
  status :: OrderStatus
  statusHistory :: "OrderStatusUpdate list option"
  adminComment :: "string option"
  createdAt :: number
  shippingDetails :: Address
  paymentMethod :: PaymentMethod
  customerEmail :: "string option"
  customerPhone :: "string option"


section \<open>The cart of \<open>ShopProvider\<close> (App.tsx)\<close>

text \<open>
  The provider's React state that the cart operations touch, and the \<open>alert\<close> boxes they
  raise (newest last).  \<open>db.getCurrentUser()\<close> reads the browser's local storage; its
  result is a parameter of \<open>addToCart\<close>.
\<close>

record ShopState =
  cart :: "CartItem list"
  isCartOpen :: bool
  alerts :: "string list"

definition initialShop :: ShopState where
  "initialShop = \<lparr>cart = [], isCartOpen = False, alerts = []\<rparr>"

text \<open>\<open>{ ...product, quantity: 1 }\<close>\<close>

definition newLine :: "Product \<Rightarrow> CartItem" where
  "newLine product = Product.extend product (CartItem.fields 1)"

text \<open>\<open>item.id === product.id ? { ...item, quantity: item.quantity + 1 } : item\<close>\<close>

definition bumpLine :: "string \<Rightarrow> CartItem \<Rightarrow> CartItem" where
  "bumpLine pid item =
     (if product_id item = pid then item\<lparr>quantity := quantity item + 1\<rparr> else item)"

definition addToCart :: "User option \<Rightarrow> Product \<Rightarrow> ShopState \<Rightarrow> ShopState" where
  "addToCart user product s =
     (if (case user of None \<Rightarrow> False | Some u \<Rightarrow> role u = admin)
      then s\<lparr>alerts := alerts s @ [''Admins cannot create orders.'']\<rparr>
      else
        s\<lparr>cart :=
             (case find (\<lambda>item. product_id item = product_id product) (cart s) of
                Some existing \<Rightarrow> map (bumpLine (product_id product)) (cart s)
              | None \<Rightarrow> cart s @ [newLine product]),
           isCartOpen := True\<rparr>)"

definition removeFromCart :: "string \<Rightarrow> ShopState \<Rightarrow> ShopState" where
  "removeFromCart pid s = s\<lparr>cart := filter (\<lambda>item. product_id item \<noteq> pid) (cart s)\<rparr>"

text \<open>\<open>item.id === id ? { ...item, quantity: qty } : item\<close>\<close>

definition setLine :: "string \<Rightarrow> number \<Rightarrow> CartItem \<Rightarrow> CartItem" where
  "setLine pid qty item = (if product_id item = pid then item\<lparr>quantity := qty\<rparr> else item)"

definition updateQuantity :: "string \<Rightarrow> number \<Rightarrow> ShopState \<Rightarrow> ShopState" where
  "updateQuantity pid qty s =
     (if qty < 1 then removeFromCart pid s
      else s\<lparr>cart := map (setLine pid qty) (cart s)\<rparr>)"

definition clearCart :: "ShopState \<Rightarrow> ShopState" where
  "clearCart s = s\<lparr>cart := []\<rparr>"



text \<open>
  One call of a cart operation by a view.  An add carries what \<open>db.getCurrentUser()\<close>
  returns when it runs.
\<close>

datatype CartOp =
    AddToCart "User option" Product
  | RemoveFromCart string
  | UpdateQuantity string number
  | ClearCart

fun applyOp :: "ShopState \<Rightarrow> CartOp \<Rightarrow> ShopState" where
  "applyOp s (AddToCart user product) = addToCart user product s"
| "applyOp s (RemoveFromCart pid) = removeFromCart pid s"
| "applyOp s (UpdateQuantity pid qty) = updateQuantity pid qty s"
| "applyOp s ClearCart = clearCart s"

definition runOps :: "CartOp list \<Rightarrow> ShopState" where
  "runOps ops = foldl applyOp initialShop ops"


section \<open>Checkout (App.tsx, \<open>CheckoutPage\<close>)\<close>





section \<open>The data service (\<open>FirebaseService\<close>)\<close>

text \<open>
  The two collections the modelled methods use, each a map from document id to document
  data.  \<open>getDoc\<close> is a lookup (\<open>exists()\<close> is \<open>Some\<close>), and \<open>updateDoc\<close> replaces the
  named fields of the stored document.  A thrown \<open>Error(msg)\<close> is \<open>Inl (Error msg)\<close>;
  \<open>Date.now()\<close> and the random review id are parameters.

  \<open>updateDoc\<close> does not accept \<open>undefined\<close> as the value of a field, at any depth of the
  data: the call throws a \<open>FirebaseError\<close> (code \<open>invalid-argument\<close>) and writes nothing.
  Only a Firestore instance initialised with \<open>ignoreUndefinedProperties\<close> skips such
  fields instead.  The instance is created in \<open>firebaseConfig\<close>, which is not among the
  sources, so the setting is a field of the store; the SDK's default is \<open>False\<close>.
\<close>

datatype Error = Error string | FirebaseError string

record Firestore =
  ignoreUndefinedProperties :: bool
  products :: "string \<rightharpoonup> Product"
  orders :: "string \<rightharpoonup> Order"

text \<open>\<open>product.reviews || []\<close> and \<open>order.statusHistory || []\<close>\<close>

definition reviewsOf :: "Product \<Rightarrow> Review list" where
  "reviewsOf product = (case reviews product of None \<Rightarrow> [] | Some rs \<Rightarrow> rs)"

definition historyOf :: "Order \<Rightarrow> OrderStatusUpdate list" where
  "historyOf order = (case statusHistory order of None \<Rightarrow> [] | Some h \<Rightarrow> h)"

text \<open>\<open>updatedReviews.reduce((acc, r) => acc + r.rating, 0)\<close>\<close>

definition totalRating :: "Review list \<Rightarrow> JsNumber" where
  "totalRating rs = foldl (\<lambda>acc r. jsAdd acc (review_rating r)) (Finite 0) rs"

text \<open>
  The \<open>review\<close> argument has no id and no date in the source; both fields of the record
  passed here are overwritten.  The result is the returned product and the store.
\<close>

definition addReview ::
  "string \<Rightarrow> Review \<Rightarrow> string \<Rightarrow> number \<Rightarrow> Firestore \<Rightarrow> Error + (Product \<times> Firestore)" where
  "addReview productId review randomId now db =
     (case products db productId of
        None \<Rightarrow> Inl (Error ''Product not found'')
      | Some product \<Rightarrow>
          let newReview = review\<lparr>review_id := randomId, date := now\<rparr>;
              updatedReviews = reviewsOf product @ [newReview];
              newRating = jsDivide (totalRating updatedReviews) (length updatedReviews)
          in Inr (product\<lparr>product_id := productId, reviews := Some updatedReviews,
                           rating := newRating\<rparr>,
                  db\<lparr>products := (products db)(productId \<mapsto>
                         product\<lparr>reviews := Some updatedReviews, rating := newRating\<rparr>)\<rparr>))"

definition deleteReview ::
  "string \<Rightarrow> string \<Rightarrow> Firestore \<Rightarrow> Error + (Product \<times> Firestore)" where
  "deleteReview productId reviewId db =
     (case products db productId of
        None \<Rightarrow> Inl (Error ''Product not found'')
      | Some product \<Rightarrow>
          let updatedReviews = filter (\<lambda>r. review_id r \<noteq> reviewId) (reviewsOf product);
              newRating = (if length updatedReviews > 0
                           then jsDivide (totalRating updatedReviews) (length updatedReviews)
                           else Finite 0)
          in Inr (product\<lparr>product_id := productId, reviews := Some updatedReviews,
                           rating := newRating\<rparr>,
                  db\<lparr>products := (products db)(productId \<mapsto>
                         product\<lparr>reviews := Some updatedReviews, rating := newRating\<rparr>)\<rparr>))"

text \<open>
  \<open>Promise<void>\<close>: the result is the store alone.  When no comment is passed, the data
  handed to \<open>updateDoc\<close> holds \<open>undefined\<close> twice, as \<open>adminComment\<close> and as the \<open>comment\<close>
  of the new history entry: the call is rejected, or, on an instance that ignores undefined
  properties, \<open>adminComment\<close> is not written and the new entry has no comment.
\<close>

definition updateOrderStatus ::
  "string \<Rightarrow> OrderStatus \<Rightarrow> string option \<Rightarrow> number \<Rightarrow> Firestore \<Rightarrow> Error + Firestore" where
  "updateOrderStatus orderId newStatus comment now db =
     (case orders db orderId of
        Some order \<Rightarrow>
          let history = historyOf order @
                 [\<lparr>update_status = newStatus, update_comment = comment, timestamp = now\<rparr>]
          in if comment = None \<and> \<not> ignoreUndefinedProperties db
             then Inl (FirebaseError ''invalid-argument'')
             else Inr (db\<lparr>orders := (orders db)(orderId \<mapsto>
                    order\<lparr>status := newStatus,
                          adminComment := (case comment of
                                             Some text \<Rightarrow> Some text
                                           | None \<Rightarrow> adminComment order),
                          statusHistory := Some history\<rparr>)\<rparr>)
      | None \<Rightarrow> Inr db)"

text \<open>
  The clock is read twice: \<open>now\<close> for the age of the order, \<open>stamp\<close> for the history
  entry.
\<close>

definition cancelOrder ::
  "string \<Rightarrow> number \<Rightarrow> number \<Rightarrow> Firestore \<Rightarrow> Error + (bool \<times> Firestore)" where
  "cancelOrder orderId now stamp db =
     (case orders db orderId of
        None \<Rightarrow> Inr (False, db)
      | Some order \<Rightarrow>
          let timeDiff = now - createdAt order;
              hoursDiff = timeDiff / (1000 * 60 * 60)
          in if hoursDiff > 24 \<or> status order \<noteq> Pending then Inr (False, db)
             else
               let history = historyOf order @
                      [\<lparr>update_status = Cancelled, update_comment = Some ''Cancelled by user'',
                        timestamp = stamp\<rparr>]
               in Inr (True,
                       db\<lparr>orders := (orders db)(orderId \<mapsto>
                          order\<lparr>status := Cancelled, statusHistory := Some history\<rparr>)\<rparr>))"


section \<open>The specification's readings\<close>



text \<open>The arithmetic mean of the ratings of a list of reviews, 0 for the empty list.\<close>

definition meanRating :: "Review list \<Rightarrow> number" where
  "meanRating rs =
     (if rs = [] then 0 else (\<Sum>r\<leftarrow>rs. review_rating r) / of_nat (length rs))"


text \<open>The stars of a review rated with a whole number.\<close>

definition starCount :: "Review \<Rightarrow> nat" where
  "starCount r = nat \<lfloor>review_rating r\<rfloor>"


section \<open>Sample data\<close>

definition sampleProduct ::
  "string \<Rightarrow> number \<Rightarrow> number option \<Rightarrow> number option \<Rightarrow> Product" where
  "sampleProduct pid p offer fee =
     \<lparr>product_id = pid, product_name = ''Item'', description = [], shortDescription = None,
      price = p, offerPrice = offer, category = ''General'', imageUrl = [], images = [],
      videoUrl = None, stock = 5, rating = Finite 0, reviews = Some [], deliveryFee = fee\<rparr>"

definition sampleUser :: "Role \<Rightarrow> User" where
  "sampleUser r =
     \<lparr>user_id = ''u1'', email = ''u1@example.com'', user_name = ''U'', phone = [],
      role = r, addresses = [], wishlist = []\<rparr>"

definition sampleReview :: "number \<Rightarrow> Review" where
  "sampleReview stars =
     \<lparr>review_id = [], review_userId = ''u1'', userName = ''U'', review_rating = stars,
      review_comment = ''ok'', date = 0\<rparr>"

definition sampleAddress :: Address where
  "sampleAddress =
     \<lparr>address_id = ''a1'', label = ''Home'', address_name = ''U'', address = ''1 Main St'',
      city = ''Colombo'', district = ''Colombo'', address_phone = ''0110000000''\<rparr>"

text \<open>An order as \<open>createOrder\<close> writes it at time \<open>t\<close>.\<close>

definition sampleOrder :: "number \<Rightarrow> Order" where
  "sampleOrder t =
     \<lparr>order_id = ''o1'', order_userId = ''u1'', items = [], totalAmount = 0,
      order_deliveryFee = 0, status = Pending,
      statusHistory = Some [\<lparr>update_status = Pending,
                              update_comment = Some ''Order placed successfully'',
                              timestamp = t\<rparr>],
      adminComment = None, createdAt = t, shippingDetails = sampleAddress,
      paymentMethod = COD, customerEmail = None, customerPhone = None\<rparr>"

definition emptyStore :: Firestore where
  "emptyStore = \<lparr>ignoreUndefinedProperties = False, products = Map.empty,
                  orders = Map.empty\<rparr>"

definition productStore :: Firestore where
  "productStore = \<lparr>ignoreUndefinedProperties = False,
                    products = [''p1'' \<mapsto> sampleProduct ''p1'' 1000 None None],
                    orders = Map.empty\<rparr>"

definition orderStore :: "number \<Rightarrow> Firestore" where
  "orderStore t = \<lparr>ignoreUndefinedProperties = False, products = Map.empty,
                    orders = [''o1'' \<mapsto> sampleOrder t]\<rparr>"

text \<open>The store and the returned rating of a review operation's result.\<close>

definition resultStore :: "Error + (Product \<times> Firestore) \<Rightarrow> Firestore" where
  "resultStore r = (case r of Inr (p, db) \<Rightarrow> db | Inl e \<Rightarrow> emptyStore)"

definition resultRating :: "Error + (Product \<times> Firestore) \<Rightarrow> JsNumber option" where
  "resultRating r = (case r of Inr (p, db) \<Rightarrow> Some (rating p) | Inl e \<Rightarrow> None)"

text \<open>Product \<open>p1\<close> after a review rated 4 (id \<open>r1\<close>) and a review rated 2 (id \<open>r2\<close>).\<close>

definition twoReviewStore :: Firestore where
  "twoReviewStore =
     resultStore (addReview ''p1'' (sampleReview 2) ''r2'' 20
       (resultStore (addReview ''p1'' (sampleReview 4) ''r1'' 10 productStore)))"

text \<open>The stored reviews, and the stored comment of an order, after an operation.\<close>

definition resultReviews :: "Error + (Product \<times> Firestore) \<Rightarrow> Review list" where
  "resultReviews r = (case r of Inr (p, db) \<Rightarrow> reviewsOf p | Inl e \<Rightarrow> [])"


text \<open>Product \<open>p1\<close> with reviews rated 5 (id \<open>r1\<close>) and 4 (id \<open>r2\<close>).\<close>

definition fiveFourStore :: Firestore where
  "fiveFourStore =
     resultStore (addReview ''p1'' (sampleReview 4) ''r2'' 20
       (resultStore (addReview ''p1'' (sampleReview 5) ''r1'' 10 productStore)))"




section \<open>Auxiliary facts\<close>

lemmas cart_defs = runOps_def initialShop_def addToCart_def removeFromCart_def
  updateQuantity_def clearCart_def newLine_def bumpLine_def setLine_def sampleProduct_def
  Product.defs CartItem.defs



lemma runOps_Nil: "runOps [] = initialShop"
  by (simp add: runOps_def)

lemma runOps_snoc: "runOps (ops @ [op]) = applyOp (runOps ops) op"
  by (simp add: runOps_def)

lemma find_None_ids:
  "find (\<lambda>item. product_id item = pid) c = None \<longleftrightarrow> pid \<notin> product_id ` set c"
  by (auto simp: find_None_iff)

lemma find_Some_ids:
  "(\<exists>e. find (\<lambda>item. product_id item = pid) c = Some e) \<longleftrightarrow> pid \<in> product_id ` set c"
  using find_None_ids[of pid c] by (cases "find (\<lambda>item. product_id item = pid) c") auto

lemma product_id_bumpLine: "product_id (bumpLine pid item) = product_id item"
  by (simp add: bumpLine_def)

lemma product_id_setLine: "product_id (setLine pid q item) = product_id item"
  by (simp add: setLine_def)

lemma ids_bumpLine: "map (product_id \<circ> bumpLine pid) c = map product_id c"
  by (simp add: product_id_bumpLine)

lemma ids_setLine: "map (product_id \<circ> setLine pid q) c = map product_id c"
  by (simp add: product_id_setLine)

lemma product_id_newLine: "product_id (newLine p) = product_id p"
  by (simp add: newLine_def Product.defs CartItem.defs)

lemma quantity_newLine: "quantity (newLine p) = 1"
  by (simp add: newLine_def Product.defs CartItem.defs)

lemma truncate_newLine: "Product.truncate (newLine p) = p"
  by (simp add: newLine_def Product.defs CartItem.defs)

text \<open>Every cart operation keeps all quantities at 1 or more.\<close>

lemma applyOp_quantities:
  assumes "\<forall>item\<in>set (cart s). 1 \<le> quantity item"
  shows "\<forall>item\<in>set (cart (applyOp s op)). 1 \<le> quantity item"
proof (cases op)
  case (AddToCart user product)
  then show ?thesis using assms
    by (auto simp: addToCart_def bumpLine_def quantity_newLine split: option.splits)
next
  case (RemoveFromCart pid)
  then show ?thesis using assms by (auto simp: removeFromCart_def)
next
  case (UpdateQuantity pid qty)
  then show ?thesis using assms
    by (auto simp: updateQuantity_def removeFromCart_def setLine_def)
next
  case ClearCart
  then show ?thesis by (simp add: clearCart_def)
qed

lemma runOps_quantities: "\<forall>item\<in>set (cart (runOps ops)). 1 \<le> quantity item"
proof (induction ops rule: rev_induct)
  case Nil
  show ?case by (simp add: runOps_Nil initialShop_def)
next
  case (snoc op ops)
  then show ?case unfolding runOps_snoc by (rule applyOp_quantities)
qed

text \<open>Every cart operation keeps the product ids of the lines pairwise different.\<close>

lemma applyOp_distinct:
  assumes "distinct (map product_id (cart s))"
  shows "distinct (map product_id (cart (applyOp s op)))"
proof (cases op)
  case (AddToCart user product)
  show ?thesis
  proof (cases "find (\<lambda>item. product_id item = product_id product) (cart s)")
    case None
    then have "product_id product \<notin> product_id ` set (cart s)" by (simp add: find_None_ids)
    with assms None AddToCart show ?thesis
      by (simp add: addToCart_def product_id_newLine)
  next
    case (Some e)
    with assms AddToCart show ?thesis
      by (simp add: addToCart_def ids_bumpLine)
  qed
next
  case (RemoveFromCart pid)
  then show ?thesis using assms by (simp add: removeFromCart_def distinct_map_filter)
next
  case (UpdateQuantity pid qty)
  with assms show ?thesis
    by (simp add: updateQuantity_def removeFromCart_def distinct_map_filter ids_setLine)
next
  case ClearCart
  then show ?thesis by (simp add: clearCart_def)
qed

lemma runOps_distinct: "distinct (map product_id (cart (runOps ops)))"
proof (induction ops rule: rev_induct)
  case Nil
  show ?case by (simp add: runOps_Nil initialShop_def)
next
  case (snoc op ops)
  then show ?case unfolding runOps_snoc by (rule applyOp_distinct)
qed

lemma filter_id_distinct:
  "distinct (map f xs) \<Longrightarrow> x \<in> f ` set xs \<Longrightarrow> length (filter (\<lambda>y. f y = x) xs) = 1"
proof (induction xs)
  case Nil
  then show ?case by simp
next
  case (Cons a xs)
  show ?case
  proof (cases "f a = x")
    case True
    with Cons.prems have "x \<notin> f ` set xs" by auto
    then have "filter (\<lambda>y. f y = x) xs = []" by (auto simp: filter_empty_conv)
    with True show ?thesis by simp
  next
    case False
    with Cons show ?thesis by auto
  qed
qed



lemma cancelOrder_missing:
  "orders db orderId = None \<Longrightarrow> cancelOrder orderId now stamp db = Inr (False, db)"
  by (simp add: cancelOrder_def)


subsection \<open>Rounding to a double\<close>

lemma binadeGe1_bounds:
  assumes "1 \<le> y"
  shows "2 powi binadeGe1 y \<le> y" "y < 2 powi (binadeGe1 y + 1)"
proof -
  let ?n = "nat \<lfloor>y\<rfloor>"
  let ?k = "floorlog 2 ?n"
  have fpos: "1 \<le> \<lfloor>y\<rfloor>" using assms by simp
  have n: "0 < ?n" using fpos by simp
  from floorlog_bounds[OF n, of 2] have lo: "2 ^ (?k - 1) \<le> ?n" and hi: "?n < 2 ^ ?k" by auto
  have kpos: "0 < ?k" using n by (simp add: floorlog_eq_zero_iff zero_less_iff_neq_zero)
  have nint: "int ?n = \<lfloor>y\<rfloor>" using fpos by simp
  have "int (2 ^ (?k - 1)) \<le> int ?n" using lo by (simp only: of_nat_le_iff)
  then have lo': "2 ^ (?k - 1) \<le> \<lfloor>y\<rfloor>" using nint by simp
  have "int ?n < int (2 ^ ?k)" using hi by (simp only: of_nat_less_iff)
  then have hi': "\<lfloor>y\<rfloor> < 2 ^ ?k" using nint by simp
  have "rat_of_int (2 ^ (?k - 1)) \<le> rat_of_int \<lfloor>y\<rfloor>" using lo' by (simp only: of_int_le_iff)
  then have "(2::rat) ^ (?k - 1) \<le> of_int \<lfloor>y\<rfloor>" by simp
  also have "\<dots> \<le> y" by simp
  finally have a: "(2::rat) ^ (?k - 1) \<le> y" .
  have e: "binadeGe1 y = int (?k - 1)" using kpos by (simp add: binadeGe1_def of_nat_diff)
  show "2 powi binadeGe1 y \<le> y" using a by (simp only: e power_int_of_nat)
  have "\<lfloor>y\<rfloor> + 1 \<le> 2 ^ ?k" using hi' by simp
  then have "rat_of_int (\<lfloor>y\<rfloor> + 1) \<le> rat_of_int (2 ^ ?k)" by (simp only: of_int_le_iff)
  then have "of_int \<lfloor>y\<rfloor> + 1 \<le> (2::rat) ^ ?k" by simp
  moreover have "y < of_int \<lfloor>y\<rfloor> + 1" by linarith
  ultimately have b: "y < 2 ^ ?k" by linarith
  have e': "binadeGe1 y + 1 = int ?k" by (simp add: binadeGe1_def)
  show "y < 2 powi (binadeGe1 y + 1)" using b by (simp only: e' power_int_of_nat)
qed

lemma inverse_pow2: "(2::rat) powi (- k) = 1 / 2 powi k"
  by (simp add: power_int_minus divide_inverse)

lemma binade_bounds:
  assumes "x \<noteq> 0"
  shows "2 powi binade x \<le> \<bar>x\<bar> \<and> \<bar>x\<bar> < 2 powi (binade x + 1)"
proof (cases "1 \<le> \<bar>x\<bar>")
  case True
  then show ?thesis using binadeGe1_bounds[of "\<bar>x\<bar>"] by (simp add: binade_def)
next
  case False
  define a where "a = \<bar>x\<bar>"
  define k where "k = binadeGe1 (1 / a)"
  define p where "p = (2::rat) powi k"
  have apos: "0 < a" and a1: "a < 1" using assms False by (simp_all add: a_def)
  have y1: "1 \<le> 1 / a" using apos a1 by simp
  have ppos: "0 < p" by (simp add: p_def)
  have p2: "(2::rat) powi (k + 1) = 2 * p"
    by (simp add: p_def power_int_add)
  from binadeGe1_bounds[OF y1] have lo: "p \<le> 1 / a" and hi: "1 / a < 2 * p"
    by (simp_all add: k_def[symmetric] p_def[symmetric] p2)
  have up: "a \<le> 1 / p" using lo apos ppos by (simp add: field_simps)
  have down: "1 / (2 * p) < a" using hi apos ppos by (simp add: field_simps)
  have m0: "(2::rat) powi (- k) = 1 / p" by (simp add: p_def inverse_pow2)
  have m1: "(2::rat) powi (- k - 1) = 1 / (2 * p)"
  proof -
    have "- k - 1 = - (k + 1)" by simp
    then show ?thesis by (simp only: inverse_pow2 p2)
  qed
  have m2: "(2::rat) powi (- k + 1) = 2 / p"
  proof -
    have "(2::rat) powi (- k + 1) = 2 powi (- k) * 2 powi 1"
      by (rule power_int_add) simp
    then show ?thesis by (simp only: m0) simp
  qed
  have bdef: "binade x = (if 1 / a = p then - k else - k - 1)"
    using False by (simp add: binade_def Let_def a_def k_def p_def)
  show ?thesis
  proof (cases "1 / a = p")
    case True
    then have b: "binade x = - k" by (simp add: bdef)
    have "a = 1 / p" using True apos ppos by (simp add: field_simps)
    moreover have "1 / p < 2 / p" using ppos by (simp add: field_simps)
    ultimately show ?thesis by (simp only: b m0 m2 a_def[symmetric]) simp
  next
    case neq: False
    then have b: "binade x = - k - 1" by (simp add: bdef)
    have "a \<noteq> 1 / p"
    proof
      assume "a = 1 / p"
      then have "1 / a = p" using ppos by simp
      with neq show False by simp
    qed
    with up have lt: "a < 1 / p" by simp
    have "- k - 1 + 1 = - k" by simp
    then have m3: "(2::rat) powi (- k - 1 + 1) = 1 / p" by (simp only: m0)
    show ?thesis using lt down by (simp only: b m1 m3 a_def[symmetric]) simp
  qed
qed

lemma roundEven_of_int: "roundEven (of_int k) = k"
  by (simp add: roundEven_def)

lemma roundEven_error: "\<bar>of_int (roundEven y) - y\<bar> \<le> 1 / 2"
proof -
  have "of_int \<lfloor>y\<rfloor> \<le> y" "y < of_int \<lfloor>y\<rfloor> + 1" by linarith+
  then show ?thesis unfolding roundEven_def Let_def by (simp add: abs_if) linarith
qed

lemma pow2_less_cancel:
  assumes "(2::rat) powi a < 2 powi b"
  shows "a < b"
proof (rule ccontr)
  assume "\<not> a < b"
  then have "b \<le> a" by simp
  then have "(2::rat) powi b \<le> 2 powi a" by (rule power_int_increasing) simp
  with assms show False by simp
qed

lemma pow2_split: "(2::rat) powi (a - b) * 2 powi b = 2 powi a"
proof -
  have "(2::rat) powi (a - b + b) = 2 powi (a - b) * 2 powi b"
    by (rule power_int_add) simp
  then show ?thesis by simp
qed

text \<open>The result is within half a quantum of the argument.\<close>

lemma roundDouble_error:
  "\<bar>roundDouble x - x\<bar> \<le> 2 powi (max (binade x) (- 1022) - 52) / 2"
proof (cases "x = 0")
  case True
  then show ?thesis by (simp add: roundDouble_def)
next
  case False
  define p where "p = (2::rat) powi (max (binade x) (- 1022) - 52)"
  have ppos: "0 < p" by (simp add: p_def)
  have rd: "roundDouble x = of_int (roundEven (x / p)) * p"
    using False by (simp add: roundDouble_def Let_def p_def)
  have "roundDouble x - x = (of_int (roundEven (x / p)) - x / p) * p"
    using ppos by (simp add: rd field_simps)
  then have "\<bar>roundDouble x - x\<bar> = \<bar>of_int (roundEven (x / p)) - x / p\<bar> * p"
    using ppos by (simp add: abs_mult)
  also have "\<dots> \<le> (1 / 2) * p"
    using roundEven_error[of "x / p"] ppos by (intro mult_right_mono) simp_all
  finally show ?thesis by (simp add: p_def)
qed

text \<open>In the normal range the relative error is at most \<open>2\<^sup>-\<^sup>5\<^sup>3\<close>.\<close>

lemma roundDouble_relative_error:
  assumes "2 powi (- 1022) \<le> \<bar>x\<bar>"
  shows "\<bar>roundDouble x - x\<bar> \<le> \<bar>x\<bar> / 2 ^ 53"
proof -
  have pos: "(0::rat) < 2 powi (- 1022)" by (rule zero_less_power_int) simp
  with assms have x0: "x \<noteq> 0" by auto
  from binade_bounds[OF x0] have lo: "2 powi binade x \<le> \<bar>x\<bar>"
    and hi: "\<bar>x\<bar> < 2 powi (binade x + 1)" by auto
  from assms hi have "(2::rat) powi (- 1022) < 2 powi (binade x + 1)" by (rule le_less_trans)
  then have "- 1022 < binade x + 1" by (rule pow2_less_cancel)
  then have m: "max (binade x) (- 1022) = binade x" by simp
  have "(2::rat) powi (binade x - 52) * 2 powi 52 = 2 powi binade x" by (rule pow2_split)
  then have "(2::rat) powi (binade x - 52) = 2 powi binade x / 2 ^ 52" by (simp add: field_simps)
  then have "(2::rat) powi (binade x - 52) / 2 = 2 powi binade x / 2 ^ 53" by simp
  also have "\<dots> \<le> \<bar>x\<bar> / 2 ^ 53" using lo by (simp add: divide_right_mono)
  finally show ?thesis using roundDouble_error[of x] by (simp only: m)
qed

text \<open>A number with a significand of at most 53 bits is its own rounding.\<close>

lemma roundDouble_exact:
  assumes "\<bar>m\<bar> < 2 ^ 53" and "- 1074 \<le> j"
  shows "roundDouble (of_int m * 2 powi j) = of_int m * 2 powi j"
proof (cases "m = 0")
  case True
  then show ?thesis by (simp add: roundDouble_def)
next
  case False
  define x where "x = rat_of_int m * 2 powi j"
  define q where "q = max (binade x) (- 1022) - 52"
  have pj: "(0::rat) < 2 powi j" by (rule zero_less_power_int) simp
  have x0: "x \<noteq> 0" using False pj by (simp add: x_def)
  from binade_bounds[OF x0] have lo: "2 powi binade x \<le> \<bar>x\<bar>" by simp
  have "rat_of_int \<bar>m\<bar> < rat_of_int (2 ^ 53)" using assms(1) by (simp only: of_int_less_iff)
  then have mlt: "\<bar>rat_of_int m\<bar> < 2 ^ 53" by simp
  have "\<bar>x\<bar> = \<bar>rat_of_int m\<bar> * 2 powi j" using pj by (simp add: x_def abs_mult)
  also have "\<dots> < 2 ^ 53 * 2 powi j" using mlt pj by (rule mult_strict_right_mono)
  also have "\<dots> = 2 powi (53 + j)"
  proof -
    have "(2::rat) powi (53 + j) = 2 powi 53 * 2 powi j" by (rule power_int_add) simp
    then show ?thesis by simp
  qed
  finally have "\<bar>x\<bar> < 2 powi (53 + j)" .
  with lo have "(2::rat) powi binade x < 2 powi (53 + j)" by (rule le_less_trans)
  then have "binade x < 53 + j" by (rule pow2_less_cancel)
  with assms(2) have qj: "q \<le> j" by (simp add: q_def)
  define d where "d = nat (j - q)"
  have dj: "int d = j - q" using qj by (simp add: d_def)
  have split: "(2::rat) powi j = 2 ^ d * 2 powi q"
  proof -
    have "(2::rat) powi (j - q) * 2 powi q = 2 powi j" by (rule pow2_split)
    moreover have "(2::rat) powi (j - q) = 2 ^ d" by (simp only: dj[symmetric] power_int_of_nat)
    ultimately show ?thesis by simp
  qed
  have pq: "(0::rat) < 2 powi q" by (rule zero_less_power_int) simp
  have quot: "x / 2 powi q = of_int (m * 2 ^ d)"
    using pq by (simp add: x_def split)
  have "roundDouble x = of_int (roundEven (x / 2 powi q)) * 2 powi q"
    using x0 by (simp add: roundDouble_def Let_def q_def)
  also have "\<dots> = of_int (m * 2 ^ d) * 2 powi q"
    by (simp only: quot roundEven_of_int)
  also have "\<dots> = x" by (simp add: x_def split)
  finally show ?thesis by (simp only: x_def)
qed

lemma roundDouble_of_nat:
  assumes "n < 2 ^ 53"
  shows "roundDouble (of_nat n) = of_nat n"
proof -
  have "\<bar>int n\<bar> < 2 ^ 53" using assms by (simp add: of_nat_less_numeral_power_cancel_iff)
  from roundDouble_exact[OF this, of 0] show ?thesis by simp
qed

subsection \<open>Sums and means of whole ratings\<close>

lemma toDouble_of_nat:
  assumes "n < 2 ^ 53"
  shows "toDouble (of_nat n) = Finite (of_nat n)"
proof -
  have "(2::nat) ^ 53 \<le> 2 ^ 1024" by (rule power_increasing) simp_all
  with assms have "n < 2 ^ 1024" by simp
  then have "rat_of_nat n < rat_of_nat (2 ^ 1024)" by (simp only: of_nat_less_iff)
  then have "\<not> (2::rat) ^ 1024 \<le> \<bar>of_nat n\<bar>" by simp
  then show ?thesis by (simp only: toDouble_def Let_def roundDouble_of_nat[OF assms] if_False)
qed

lemma toDouble_numeral:
  "numeral k < (2::nat) ^ 53 \<Longrightarrow> toDouble (numeral k) = Finite (numeral k)"
  using toDouble_of_nat[of "numeral k"] by simp

lemma toDouble_normal:
  assumes "2 powi (- 1022) \<le> \<bar>x\<bar>" and "\<bar>x\<bar> \<le> 2 ^ 1023"
  shows "toDouble x = Finite (roundDouble x)"
proof -
  from roundDouble_relative_error[OF assms(1)]
  have "\<bar>roundDouble x\<bar> \<le> \<bar>x\<bar> + \<bar>x\<bar> / 2 ^ 53" by linarith
  also have "\<dots> < 2 * \<bar>x\<bar>"
  proof -
    have "(0::rat) < 2 powi (- 1022)" by (rule zero_less_power_int) simp
    with assms(1) have "0 < \<bar>x\<bar>" by linarith
    then have "\<bar>x\<bar> / 2 ^ 53 < \<bar>x\<bar>" by simp
    then show ?thesis by simp
  qed
  also have "\<dots> \<le> 2 * 2 ^ 1023" using assms(2) by simp
  also have "\<dots> = (2::rat) ^ 1024" by simp
  finally have "\<not> 2 ^ 1024 \<le> \<bar>roundDouble x\<bar>" by simp
  then show ?thesis by (simp only: toDouble_def Let_def if_False)
qed

lemma whole_rating:
  assumes "review_rating r \<in> {1, 2, 3, 4, 5}"
  shows "review_rating r = of_nat (starCount r)" "1 \<le> starCount r" "starCount r \<le> 5"
  using assms by (auto simp: starCount_def)

lemma sum_whole:
  assumes "\<forall>r\<in>set rs. review_rating r \<in> {1, 2, 3, 4, 5}"
  shows "(\<Sum>r\<leftarrow>rs. review_rating r) = of_nat (\<Sum>r\<leftarrow>rs. starCount r)"
    and "length rs \<le> (\<Sum>r\<leftarrow>rs. starCount r)"
    and "(\<Sum>r\<leftarrow>rs. starCount r) \<le> 5 * length rs"
  using assms
proof (induction rs)
  case Nil
  { case 1 show ?case by simp }
  { case 2 show ?case by simp }
  { case 3 show ?case by simp }
next
  case (Cons a rs)
  { case 1 then show ?case using Cons.IH(1) whole_rating(1)[of a] by simp }
  { case 2 then show ?case using Cons.IH(2) whole_rating(2)[of a] by simp }
  { case 3 then show ?case using Cons.IH(3) whole_rating(3)[of a] by simp }
qed

lemma foldl_jsAdd_whole:
  assumes "\<forall>r\<in>set rs. review_rating r \<in> {1, 2, 3, 4, 5}"
    and "a + 5 * length rs < 2 ^ 53"
  shows "foldl (\<lambda>acc r. jsAdd acc (review_rating r)) (Finite (of_nat a)) rs =
         Finite (of_nat (a + (\<Sum>r\<leftarrow>rs. starCount r)))"
  using assms
proof (induction rs arbitrary: a)
  case Nil
  then show ?case by simp
next
  case (Cons r rs)
  have r: "review_rating r = of_nat (starCount r)" and r5: "starCount r \<le> 5"
    using Cons.prems(1) whole_rating[of r] by simp_all
  have small: "a + starCount r < 2 ^ 53" using Cons.prems(2) r5 by simp
  have step: "jsAdd (Finite (of_nat a)) (review_rating r) = Finite (of_nat (a + starCount r))"
    using toDouble_of_nat[OF small] by (simp add: r)
  have rest: "\<forall>r\<in>set rs. review_rating r \<in> {1, 2, 3, 4, 5}" using Cons.prems(1) by simp
  have "(a + starCount r) + 5 * length rs < 2 ^ 53" using Cons.prems(2) r5 by simp
  from Cons.IH[OF rest this]
  have "foldl (\<lambda>acc r. jsAdd acc (review_rating r))
          (jsAdd (Finite (of_nat a)) (review_rating r)) rs =
        Finite (of_nat (a + starCount r + (\<Sum>r\<leftarrow>rs. starCount r)))"
    by (simp only: step)
  moreover have "a + starCount r + (\<Sum>r\<leftarrow>rs. starCount r) = a + (\<Sum>r\<leftarrow>r # rs. starCount r)" by simp
  ultimately show ?case by (simp only: foldl_Cons)
qed

lemma totalRating_whole:
  assumes "\<forall>r\<in>set rs. review_rating r \<in> {1, 2, 3, 4, 5}" and "length rs \<le> 2 ^ 50"
  shows "totalRating rs = Finite (\<Sum>r\<leftarrow>rs. review_rating r)"
proof -
  have "5 * length rs \<le> 5 * 2 ^ 50" using assms(2) by simp
  also have "\<dots> < (2::nat) ^ 53" by simp
  finally have "0 + 5 * length rs < 2 ^ 53" by simp
  from foldl_jsAdd_whole[OF assms(1) this] show ?thesis
    by (simp add: totalRating_def sum_whole(1)[OF assms(1)])
qed

text \<open>
  The rating the code computes for a non-empty list of whole ratings: the arithmetic mean,
  rounded to a double, and so within a relative error of \<open>2\<^sup>-\<^sup>5\<^sup>3\<close> of it.
\<close>

lemma mean_whole_bounds:
  assumes "\<forall>r\<in>set rs. review_rating r \<in> {1, 2, 3, 4, 5}" and "rs \<noteq> []"
  shows "1 \<le> meanRating rs" "meanRating rs \<le> 5"
proof -
  let ?s = "\<Sum>r\<leftarrow>rs. starCount r"
  have n: "0 < length rs" using assms(2) by simp
  have m: "meanRating rs = of_nat ?s / of_nat (length rs)"
    using assms(2) by (simp add: meanRating_def sum_whole(1)[OF assms(1)])
  have "rat_of_nat (length rs) \<le> of_nat ?s"
    using sum_whole(2)[OF assms(1)] by (simp only: of_nat_le_iff)
  then show "1 \<le> meanRating rs" using n by (simp add: m field_simps)
  have "rat_of_nat ?s \<le> of_nat (5 * length rs)"
    using sum_whole(3)[OF assms(1)] by (simp only: of_nat_le_iff)
  then show "meanRating rs \<le> 5" using n by (simp add: m field_simps)
qed

lemma jsDivide_whole:
  assumes "\<forall>r\<in>set rs. review_rating r \<in> {1, 2, 3, 4, 5}" and "length rs \<le> 2 ^ 50"
    and "rs \<noteq> []"
  shows "jsDivide (totalRating rs) (length rs) = Finite (roundDouble (meanRating rs))"
proof -
  have lo: "(2::rat) powi (- 1022) \<le> 1"
  proof -
    have "(2::rat) powi (- 1022) \<le> 2 powi 0" by (rule power_int_increasing) simp_all
    then show ?thesis by simp
  qed
  have hi: "(5::rat) \<le> 2 ^ 1023"
  proof -
    have "(2::rat) ^ 3 \<le> 2 ^ 1023" by (rule power_increasing) simp_all
    then show ?thesis by simp
  qed
  from mean_whole_bounds[OF assms(1,3)]
  have "2 powi (- 1022) \<le> \<bar>meanRating rs\<bar>" "\<bar>meanRating rs\<bar> \<le> 2 ^ 1023"
    using lo hi by linarith+
  from toDouble_normal[OF this] assms(3) show ?thesis
    by (simp add: totalRating_whole[OF assms(1,2)] meanRating_def)
qed

lemma mean_rounding_error:
  assumes "\<forall>r\<in>set rs. review_rating r \<in> {1, 2, 3, 4, 5}"
  shows "\<bar>roundDouble (meanRating rs) - meanRating rs\<bar> \<le> meanRating rs / 2 ^ 53"
proof (cases "rs = []")
  case True
  then show ?thesis by (simp add: meanRating_def roundDouble_def)
next
  case False
  have lo: "(2::rat) powi (- 1022) \<le> 1"
  proof -
    have "(2::rat) powi (- 1022) \<le> 2 powi 0" by (rule power_int_increasing) simp_all
    then show ?thesis by simp
  qed
  from mean_whole_bounds(1)[OF assms False] lo
  have "2 powi (- 1022) \<le> \<bar>meanRating rs\<bar>" and "\<bar>meanRating rs\<bar> = meanRating rs" by linarith+
  with roundDouble_relative_error[of "meanRating rs"] show ?thesis by simp
qed

lemma toDouble_13_3: "toDouble (13 / 3) = Finite (4878899596318037 / 1125899906842624)"
  by code_simp


section \<open>Order cancellation and status updates\<close>

text \<open>
  C1.  For an existing order, \<open>cancelOrder\<close> never throws; it returns \<open>true\<close> exactly when
  the order's status is Pending and the time elapsed since \<open>createdAt\<close> is at most 24 hours
  (86400000 ms).  When it returns \<open>false\<close> the store, and so the order document, is
  unchanged; when it returns \<open>true\<close> the order has status Cancelled and one more history
  entry.
\<close>

theorem cancelOrder_window:
  assumes "orders db orderId = Some order"
  shows "\<exists>ok db'. cancelOrder orderId now stamp db = Inr (ok, db') \<and>
           (ok \<longleftrightarrow> status order = Pending \<and> now - createdAt order \<le> 24 * 60 * 60 * 1000) \<and>
           (\<not> ok \<longrightarrow> db' = db) \<and>
           (ok \<longrightarrow> orders db' orderId =
              Some (order\<lparr>status := Cancelled,
                          statusHistory := Some (historyOf order @
                            [\<lparr>update_status = Cancelled,
                              update_comment = Some ''Cancelled by user'',
                              timestamp = stamp\<rparr>])\<rparr>))"
proof -
  have age: "(now - createdAt order) / (1000 * 60 * 60) > 24 \<longleftrightarrow>
             \<not> now - createdAt order \<le> 24 * 60 * 60 * 1000"
    by (auto simp: field_simps)
  show ?thesis
  proof (cases "status order = Pending \<and> now - createdAt order \<le> 24 * 60 * 60 * 1000")
    case True
    with assms age show ?thesis by (auto simp: cancelOrder_def Let_def)
  next
    case False
    with assms age show ?thesis by (auto simp: cancelOrder_def Let_def)
  qed
qed

text \<open>
  An order placed at time 0: cancelled at exactly 24 hours, refused one millisecond later.
\<close>

theorem cancelOrder_window_witness:
  "orders (orderStore 0) ''o1'' = Some (sampleOrder 0) \<and>
   (case cancelOrder ''o1'' 86400000 86400005 (orderStore 0) of
      Inr (ok, db') \<Rightarrow> ok \<and> map_option status (orders db' ''o1'') = Some Cancelled
    | Inl e \<Rightarrow> False) \<and>
   cancelOrder ''o1'' 86400001 86400005 (orderStore 0) = Inr (False, orderStore 0)"
  using cancelOrder_window[of "orderStore 0" "''o1''" "sampleOrder 0" 86400000 86400005]
        cancelOrder_window[of "orderStore 0" "''o1''" "sampleOrder 0" 86400001 86400005]
  by (simp add: orderStore_def sampleOrder_def cancelOrder_def historyOf_def Let_def)

text \<open>
  \<open>updateOrderStatus\<close> on an order id that has no document returns normally and writes
  nothing: no error is raised.
\<close>

theorem updateOrderStatus_missing_counterexample:
  "orders emptyStore ''o1'' = None \<and>
   updateOrderStatus ''o1'' Shipped (Some ''sent'') 5 emptyStore = Inr emptyStore"
  by (simp add: emptyStore_def updateOrderStatus_def)

text \<open>
  C2 (amended).  \<open>addReview\<close> and \<open>deleteReview\<close> on a product id without a document throw
  the error \<open>Product not found\<close>;  \<open>updateOrderStatus\<close> on an order id without a document
  returns normally and leaves the store unchanged.
\<close>

theorem not_found_behaviour:
  "(products db productId = None \<longrightarrow>
      addReview productId review randomId now db = Inl (Error ''Product not found'') \<and>
      deleteReview productId reviewId db = Inl (Error ''Product not found'')) \<and>
   (orders db orderId = None \<longrightarrow>
      updateOrderStatus orderId newStatus comment now db = Inr db)"
  by (simp add: addReview_def deleteReview_def updateOrderStatus_def)

theorem not_found_behaviour_witness:
  "products emptyStore ''p1'' = None \<and>
   addReview ''p1'' (sampleReview 4) ''r1'' 10 emptyStore = Inl (Error ''Product not found'') \<and>
   deleteReview ''p1'' ''r1'' emptyStore = Inl (Error ''Product not found'') \<and>
   orders emptyStore ''o1'' = None \<and>
   updateOrderStatus ''o1'' Shipped None 10 emptyStore = Inr emptyStore"
  using not_found_behaviour[of emptyStore "''p1''" "sampleReview 4" "''r1''" 10 "''r1''"
          "''o1''" Shipped None]
  by (simp add: emptyStore_def)








section \<open>Reviews and the aggregate rating\<close>

text \<open>
  Reviews rated 5, 4 and 4: the stored rating is the double 4.333333333333333, which is
  not their arithmetic mean 13/3.
\<close>

theorem rating_rounded_counterexample:
  "resultRating (addReview ''p1'' (sampleReview 4) ''r3'' 30 fiveFourStore) =
     Some (Finite (4878899596318037 / 1125899906842624)) \<and>
   map review_rating (resultReviews (addReview ''p1'' (sampleReview 4) ''r3'' 30 fiveFourStore)) =
     [5, 4, 4] \<and>
   meanRating (resultReviews (addReview ''p1'' (sampleReview 4) ''r3'' 30 fiveFourStore)) =
     13 / 3 \<and>
   (4878899596318037 / 1125899906842624 :: rat) \<noteq> 13 / 3"
  by (simp add: fiveFourStore_def resultStore_def resultRating_def resultReviews_def
        productStore_def sampleProduct_def sampleReview_def addReview_def reviewsOf_def
        totalRating_def meanRating_def Let_def toDouble_numeral toDouble_13_3)

text \<open>
  C7 (amended).  On an existing product whose reviews, like the new one, are rated with a
  whole number from 1 to 5, \<open>addReview\<close> stores the old reviews followed by the new one,
  \<open>deleteReview\<close> stores the old reviews without those of the given id, and in both cases
  the stored (and the returned) rating is the arithmetic mean of the ratings of the stored
  reviews rounded to the nearest double: it is within a relative error of \<open>2\<^sup>-\<^sup>5\<^sup>3\<close> of the
  mean, it is the mean itself when that is a double (a whole number below \<open>2\<^sup>5\<^sup>3\<close> in
  magnitude times a power of two), and it is 0 when no review is left.
\<close>

theorem review_rating_is_mean:
  assumes "products db productId = Some product"
    and "\<forall>r\<in>set (reviewsOf product). review_rating r \<in> {1, 2, 3, 4, 5}"
    and "review_rating review \<in> {1, 2, 3, 4, 5}"
    and "length (reviewsOf product) < 2 ^ 50"
  shows "(\<exists>returned db' stored.
            addReview productId review randomId now db = Inr (returned, db') \<and>
            products db' productId = Some stored \<and>
            reviewsOf stored =
              reviewsOf product @ [review\<lparr>review_id := randomId, date := now\<rparr>] \<and>
            rating stored = Finite (roundDouble (meanRating (reviewsOf stored))) \<and>
            \<bar>roundDouble (meanRating (reviewsOf stored)) - meanRating (reviewsOf stored)\<bar>
              \<le> meanRating (reviewsOf stored) / 2 ^ 53 \<and>
            (\<forall>m j. \<bar>m\<bar> < 2 ^ 53 \<longrightarrow> - 1074 \<le> j \<longrightarrow>
               meanRating (reviewsOf stored) = of_int m * 2 powi j \<longrightarrow>
               rating stored = Finite (meanRating (reviewsOf stored))) \<and>
            rating returned = rating stored \<and> reviews returned = reviews stored) \<and>
         (\<exists>returned db' stored.
            deleteReview productId reviewId db = Inr (returned, db') \<and>
            products db' productId = Some stored \<and>
            reviewsOf stored = filter (\<lambda>r. review_id r \<noteq> reviewId) (reviewsOf product) \<and>
            rating stored = Finite (roundDouble (meanRating (reviewsOf stored))) \<and>
            \<bar>roundDouble (meanRating (reviewsOf stored)) - meanRating (reviewsOf stored)\<bar>
              \<le> meanRating (reviewsOf stored) / 2 ^ 53 \<and>
            (\<forall>m j. \<bar>m\<bar> < 2 ^ 53 \<longrightarrow> - 1074 \<le> j \<longrightarrow>
               meanRating (reviewsOf stored) = of_int m * 2 powi j \<longrightarrow>
               rating stored = Finite (meanRating (reviewsOf stored))) \<and>
            (reviewsOf stored = [] \<longrightarrow> rating stored = Finite 0) \<and>
            rating returned = rating stored \<and> reviews returned = reviews stored)"
proof -
  define added where
    "added = reviewsOf product @ [review\<lparr>review_id := randomId, date := now\<rparr>]"
  define kept where "kept = filter (\<lambda>r. review_id r \<noteq> reviewId) (reviewsOf product)"
  have wa: "\<forall>r\<in>set added. review_rating r \<in> {1, 2, 3, 4, 5}"
    using assms(2,3) by (auto simp: added_def)
  have wk: "\<forall>r\<in>set kept. review_rating r \<in> {1, 2, 3, 4, 5}"
    using assms(2) by (auto simp: kept_def)
  have la: "length added \<le> 2 ^ 50" using assms(4) by (simp add: added_def)
  have "length kept \<le> length (reviewsOf product)" by (simp add: kept_def)
  with assms(4) have lk: "length kept \<le> 2 ^ 50" by simp
  have na: "added \<noteq> []" by (simp add: added_def)
  have ra: "jsDivide (totalRating added) (length added) =
            Finite (roundDouble (meanRating added))"
    using wa la na by (rule jsDivide_whole)
  have rk: "(if length kept > 0 then jsDivide (totalRating kept) (length kept) else Finite 0) =
            Finite (roundDouble (meanRating kept))"
  proof (cases "kept = []")
    case True
    then show ?thesis by (simp add: meanRating_def roundDouble_def)
  next
    case False
    with jsDivide_whole[OF wk lk False] show ?thesis by simp
  qed
  have zero: "kept = [] \<longrightarrow> Finite (roundDouble (meanRating kept)) = Finite 0"
    by (simp add: meanRating_def roundDouble_def)
  define ratingA where "ratingA = jsDivide (totalRating added) (length added)"
  define storedA where "storedA = product\<lparr>reviews := Some added, rating := ratingA\<rparr>"
  define dbA where "dbA = db\<lparr>products := (products db)(productId \<mapsto> storedA)\<rparr>"
  have resA: "addReview productId review randomId now db =
              Inr (storedA\<lparr>product_id := productId\<rparr>, dbA)"
    using assms(1) by (simp add: addReview_def Let_def added_def ratingA_def storedA_def dbA_def)
  have a1: "products dbA productId = Some storedA" by (simp add: dbA_def)
  have a2: "reviewsOf storedA = added" by (simp add: storedA_def reviewsOf_def)
  have "ratingA = Finite (roundDouble (meanRating added))" unfolding ratingA_def by (rule ra)
  then have a3: "rating storedA = Finite (roundDouble (meanRating added))"
    by (simp add: storedA_def)
  have a4: "rating (storedA\<lparr>product_id := productId\<rparr>) = rating storedA"
    and a5: "reviews (storedA\<lparr>product_id := productId\<rparr>) = reviews storedA" by simp_all
  have a6: "\<forall>m j. \<bar>m\<bar> < 2 ^ 53 \<longrightarrow> - 1074 \<le> j \<longrightarrow>
               meanRating (reviewsOf storedA) = of_int m * 2 powi j \<longrightarrow>
               rating storedA = Finite (meanRating (reviewsOf storedA))"
    using roundDouble_exact by (simp add: a2 a3)
  have add: "\<exists>returned db' stored.
            addReview productId review randomId now db = Inr (returned, db') \<and>
            products db' productId = Some stored \<and>
            reviewsOf stored = added \<and>
            rating stored = Finite (roundDouble (meanRating (reviewsOf stored))) \<and>
            \<bar>roundDouble (meanRating (reviewsOf stored)) - meanRating (reviewsOf stored)\<bar>
              \<le> meanRating (reviewsOf stored) / 2 ^ 53 \<and>
            (\<forall>m j. \<bar>m\<bar> < 2 ^ 53 \<longrightarrow> - 1074 \<le> j \<longrightarrow>
               meanRating (reviewsOf stored) = of_int m * 2 powi j \<longrightarrow>
               rating stored = Finite (meanRating (reviewsOf stored))) \<and>
            rating returned = rating stored \<and> reviews returned = reviews stored"
    using resA a1 a2 a3 a4 a5 a6 mean_rounding_error[OF wa] by (metis (no_types))
  define ratingK where
    "ratingK = (if length kept > 0 then jsDivide (totalRating kept) (length kept) else Finite 0)"
  define storedK where "storedK = product\<lparr>reviews := Some kept, rating := ratingK\<rparr>"
  define dbK where "dbK = db\<lparr>products := (products db)(productId \<mapsto> storedK)\<rparr>"
  have resK: "deleteReview productId reviewId db =
              Inr (storedK\<lparr>product_id := productId\<rparr>, dbK)"
    using assms(1) by (simp add: deleteReview_def Let_def kept_def ratingK_def storedK_def dbK_def)
  have k1: "products dbK productId = Some storedK" by (simp add: dbK_def)
  have k2: "reviewsOf storedK = kept" by (simp add: storedK_def reviewsOf_def)
  have "ratingK = Finite (roundDouble (meanRating kept))" unfolding ratingK_def by (rule rk)
  then have k3: "rating storedK = Finite (roundDouble (meanRating kept))"
    by (simp add: storedK_def)
  have k4: "rating (storedK\<lparr>product_id := productId\<rparr>) = rating storedK"
    and k5: "reviews (storedK\<lparr>product_id := productId\<rparr>) = reviews storedK" by simp_all
  have k6: "reviewsOf storedK = [] \<longrightarrow> rating storedK = Finite 0"
    using zero by (simp add: k2 k3)
  have k7: "\<forall>m j. \<bar>m\<bar> < 2 ^ 53 \<longrightarrow> - 1074 \<le> j \<longrightarrow>
               meanRating (reviewsOf storedK) = of_int m * 2 powi j \<longrightarrow>
               rating storedK = Finite (meanRating (reviewsOf storedK))"
    using roundDouble_exact by (simp add: k2 k3)
  have del: "\<exists>returned db' stored.
            deleteReview productId reviewId db = Inr (returned, db') \<and>
            products db' productId = Some stored \<and>
            reviewsOf stored = kept \<and>
            rating stored = Finite (roundDouble (meanRating (reviewsOf stored))) \<and>
            \<bar>roundDouble (meanRating (reviewsOf stored)) - meanRating (reviewsOf stored)\<bar>
              \<le> meanRating (reviewsOf stored) / 2 ^ 53 \<and>
            (\<forall>m j. \<bar>m\<bar> < 2 ^ 53 \<longrightarrow> - 1074 \<le> j \<longrightarrow>
               meanRating (reviewsOf stored) = of_int m * 2 powi j \<longrightarrow>
               rating stored = Finite (meanRating (reviewsOf stored))) \<and>
            (reviewsOf stored = [] \<longrightarrow> rating stored = Finite 0) \<and>
            rating returned = rating stored \<and> reviews returned = reviews stored"
    using resK k1 k2 k3 k4 k5 k6 k7 mean_rounding_error[OF wk] by (metis (no_types))
  from add del show ?thesis by (simp only: added_def kept_def)
qed

text \<open>
  Reviews rated 4 and 2 give the rating 3; deleting the review rated 4 gives 2; deleting
  the other one as well gives 0.
\<close>

theorem review_rating_is_mean_witness:
  "products twoReviewStore ''p1'' \<noteq> None \<and>
   map review_rating (reviewsOf (the (products twoReviewStore ''p1''))) = [4, 2] \<and>
   review_rating (sampleReview 5) = 5 \<and>
   map_option rating (products twoReviewStore ''p1'') = Some (Finite 3) \<and>
   resultRating (deleteReview ''p1'' ''r1'' twoReviewStore) = Some (Finite 2) \<and>
   resultRating (deleteReview ''p1'' ''r2''
     (resultStore (deleteReview ''p1'' ''r1'' twoReviewStore))) = Some (Finite 0)"
  using review_rating_is_mean[of twoReviewStore "''p1''"
          "the (products twoReviewStore ''p1'')" "sampleReview 5" "''r3''" 30 "''r1''"]
  by (simp add: twoReviewStore_def resultStore_def resultRating_def productStore_def
        sampleProduct_def sampleReview_def addReview_def deleteReview_def reviewsOf_def
        totalRating_def Let_def toDouble_numeral)


section \<open>The cart\<close>




text \<open>
  With an admin as the stored user, adding a product that is not in the cart appends no
  line.
\<close>

theorem addToCart_admin_counterexample:
  "cart initialShop = [] \<and>
   cart (addToCart (Some (sampleUser admin)) (sampleProduct ''p1'' 1000 None None)
           initialShop) = []"
  by (simp add: addToCart_def initialShop_def sampleUser_def)

text \<open>
  C5 (amended).  When the stored user is absent or not an admin: adding a product whose id
  is in the cart keeps the number of lines, adds exactly 1 to the quantity of each line
  with that id and leaves every other line as it is; adding a product whose id is not in
  the cart appends exactly one line, a copy of the product with quantity 1.  In a cart
  whose lines have pairwise different ids, as every cart built from the empty one has,
  the ids stay pairwise different and exactly one line has the product's id afterwards.
\<close>

theorem addToCart_merge_or_append:
  assumes "case user of None \<Rightarrow> True | Some u \<Rightarrow> role u \<noteq> admin"
  shows "(product_id product \<in> product_id ` set (cart s) \<longrightarrow>
            length (cart (addToCart user product s)) = length (cart s) \<and>
            (\<forall>i<length (cart s).
               cart (addToCart user product s) ! i =
                 (if product_id (cart s ! i) = product_id product
                  then (cart s ! i)\<lparr>quantity := quantity (cart s ! i) + 1\<rparr>
                  else cart s ! i))) \<and>
         (product_id product \<notin> product_id ` set (cart s) \<longrightarrow>
            (\<exists>line. cart (addToCart user product s) = cart s @ [line] \<and>
                    quantity line = 1 \<and> Product.truncate line = product)) \<and>
         (distinct (map product_id (cart s)) \<longrightarrow>
            distinct (map product_id (cart (addToCart user product s))) \<and>
            length (filter (\<lambda>item. product_id item = product_id product)
                      (cart (addToCart user product s))) = 1)"
proof -
  let ?pid = "product_id product"
  have gate: "\<not> (case user of None \<Rightarrow> False | Some u \<Rightarrow> role u = admin)"
    using assms by (cases user) auto
  have app: "addToCart user product s = applyOp s (AddToCart user product)" by simp
  have new: "cart (addToCart user product s) =
      (case find (\<lambda>item. product_id item = ?pid) (cart s) of
         Some existing \<Rightarrow> map (bumpLine ?pid) (cart s)
       | None \<Rightarrow> cart s @ [newLine product])"
    using gate by (simp add: addToCart_def)
  have present: "cart (addToCart user product s) = map (bumpLine ?pid) (cart s)"
    if "?pid \<in> product_id ` set (cart s)"
  proof -
    from that obtain e where "find (\<lambda>item. product_id item = ?pid) (cart s) = Some e"
      using find_Some_ids[of ?pid "cart s"] by blast
    with new show ?thesis by simp
  qed
  have absent: "cart (addToCart user product s) = cart s @ [newLine product]"
    if "?pid \<notin> product_id ` set (cart s)"
    using that new find_None_ids[of ?pid "cart s"] by simp
  have one: "?pid \<in> product_id ` set (cart (addToCart user product s))"
  proof (cases "?pid \<in> product_id ` set (cart s)")
    case True
    then show ?thesis
      using present[OF True] product_id_bumpLine[of ?pid] by (force simp: image_iff)
  next
    case False
    then show ?thesis using absent[OF False] by (simp add: product_id_newLine)
  qed
  have c1: "?pid \<in> product_id ` set (cart s) \<longrightarrow>
            length (cart (addToCart user product s)) = length (cart s) \<and>
            (\<forall>i<length (cart s).
               cart (addToCart user product s) ! i =
                 (if product_id (cart s ! i) = ?pid
                  then (cart s ! i)\<lparr>quantity := quantity (cart s ! i) + 1\<rparr>
                  else cart s ! i))"
    using present by (simp add: bumpLine_def)
  have c2: "?pid \<notin> product_id ` set (cart s) \<longrightarrow>
            (\<exists>line. cart (addToCart user product s) = cart s @ [line] \<and>
                    quantity line = 1 \<and> Product.truncate line = product)"
    using absent quantity_newLine truncate_newLine by blast
  have c3: "distinct (map product_id (cart s)) \<longrightarrow>
            distinct (map product_id (cart (addToCart user product s))) \<and>
            length (filter (\<lambda>item. product_id item = ?pid)
                      (cart (addToCart user product s))) = 1"
  proof
    assume d: "distinct (map product_id (cart s))"
    have d': "distinct (map product_id (cart (addToCart user product s)))"
      unfolding app using d by (rule applyOp_distinct)
    from filter_id_distinct[OF d' one] d'
    show "distinct (map product_id (cart (addToCart user product s))) \<and>
            length (filter (\<lambda>item. product_id item = ?pid)
                      (cart (addToCart user product s))) = 1" by simp
  qed
  from c1 c2 c3 show ?thesis by blast
qed

text \<open>
  In the cart with one unit each of \<open>p1\<close> and \<open>p2\<close>, a customer adding \<open>p1\<close> again gets
  quantities 2 and 1, and adding \<open>p3\<close> gets a third line of quantity 1.
\<close>

theorem addToCart_merge_or_append_witness:
  "(case Some (sampleUser customer) of None \<Rightarrow> True | Some u \<Rightarrow> role u \<noteq> admin) \<and>
   distinct (map product_id (cart
       (runOps [AddToCart None (sampleProduct ''p1'' 1000 None None),
                AddToCart None (sampleProduct ''p2'' 500 None None)]))) \<and>
   map quantity (cart (addToCart (Some (sampleUser customer))
       (sampleProduct ''p1'' 1000 None None)
       (runOps [AddToCart None (sampleProduct ''p1'' 1000 None None),
                AddToCart None (sampleProduct ''p2'' 500 None None)]))) = [2, 1] \<and>
   map quantity (cart (addToCart (Some (sampleUser customer))
       (sampleProduct ''p3'' 700 None None)
       (runOps [AddToCart None (sampleProduct ''p1'' 1000 None None),
                AddToCart None (sampleProduct ''p2'' 500 None None)]))) = [1, 1, 1]"
  using addToCart_merge_or_append[of "Some (sampleUser customer)"
          "sampleProduct ''p1'' 1000 None None"
          "runOps [AddToCart None (sampleProduct ''p1'' 1000 None None),
                AddToCart None (sampleProduct ''p2'' 500 None None)]"]
        addToCart_merge_or_append[of "Some (sampleUser customer)"
          "sampleProduct ''p3'' 700 None None"
          "runOps [AddToCart None (sampleProduct ''p1'' 1000 None None),
                AddToCart None (sampleProduct ''p2'' 500 None None)]"]
  by (simp add: cart_defs sampleUser_def)

text \<open>
  C6.  After every sequence of cart operations from the empty cart, every line has a
  quantity of at least 1; and \<open>updateQuantity\<close> with a quantity of 0 or less is
  \<open>removeFromCart\<close> of that product id.
\<close>

theorem cart_quantity_at_least_one:
  "(\<forall>item\<in>set (cart (runOps ops)). 1 \<le> quantity item) \<and>
   (qty \<le> 0 \<longrightarrow> updateQuantity pid qty s = removeFromCart pid s)"
  using runOps_quantities[of ops] by (simp add: updateQuantity_def)

theorem cart_quantity_at_least_one_witness:
  "map quantity (cart (runOps [AddToCart None (sampleProduct ''p1'' 1000 None None),
                 AddToCart None (sampleProduct ''p2'' 500 None None),
                 UpdateQuantity ''p1'' 3,
                 UpdateQuantity ''p2'' 0])) = [3] \<and>
   (1::rat) \<le> 3 \<and> (0::rat) \<le> 0 \<and>
   updateQuantity ''p2'' 0 (runOps [AddToCart None (sampleProduct ''p1'' 1000 None None),
                 AddToCart None (sampleProduct ''p2'' 500 None None)])
   = removeFromCart ''p2'' (runOps [AddToCart None (sampleProduct ''p1'' 1000 None None),
                 AddToCart None (sampleProduct ''p2'' 500 None None)])"
  using cart_quantity_at_least_one[of "[AddToCart None (sampleProduct ''p1'' 1000 None None),
                 AddToCart None (sampleProduct ''p2'' 500 None None),
                 UpdateQuantity ''p1'' 3,
                 UpdateQuantity ''p2'' 0]" 0 "''p2''"
       "runOps [AddToCart None (sampleProduct ''p1'' 1000 None None),
                 AddToCart None (sampleProduct ''p2'' 500 None None)]"]
  by (simp add: cart_defs)

text \<open>
  C9.  When the stored user is an admin, \<open>addToCart\<close> leaves the cart, and the cart
  drawer, as they are: no line is added and no quantity changes.  For a user who is not an
  admin, and when no user is stored, \<open>addToCart\<close> does change the cart.
\<close>

theorem addToCart_admin_unchanged:
  "(role u = admin \<longrightarrow>
      cart (addToCart (Some u) product s) = cart s \<and>
      isCartOpen (addToCart (Some u) product s) = isCartOpen s) \<and>
   (role u \<noteq> admin \<longrightarrow> cart (addToCart (Some u) product s) \<noteq> cart s) \<and>
   cart (addToCart None product s) \<noteq> cart s"
proof -
  have changed: "(case find (\<lambda>item. product_id item = product_id product) (cart s) of
                Some existing \<Rightarrow> map (bumpLine (product_id product)) (cart s)
              | None \<Rightarrow> cart s @ [newLine product]) \<noteq> cart s"
  proof (cases "find (\<lambda>item. product_id item = product_id product) (cart s)")
    case None
    then show ?thesis by simp
  next
    case (Some e)
    then have "e \<in> set (cart s)" and pe: "product_id e = product_id product"
      by (auto simp: find_Some_iff)
    then obtain i where i: "i < length (cart s)" "cart s ! i = e"
      by (auto simp: in_set_conv_nth)
    have "quantity (map (bumpLine (product_id product)) (cart s) ! i) = quantity e + 1"
      using i pe by (simp add: bumpLine_def)
    then have "map (bumpLine (product_id product)) (cart s) ! i \<noteq> cart s ! i"
      using i by auto
    then have "map (bumpLine (product_id product)) (cart s) \<noteq> cart s" by metis
    with Some show ?thesis by simp
  qed
  show ?thesis using changed by (simp add: addToCart_def)
qed

theorem addToCart_admin_unchanged_witness:
  "role (sampleUser admin) = admin \<and>
   cart (addToCart (Some (sampleUser admin)) (sampleProduct ''p1'' 1000 None None)
           initialShop) = cart initialShop \<and>
   role (sampleUser customer) \<noteq> admin \<and>
   cart (addToCart (Some (sampleUser customer)) (sampleProduct ''p1'' 1000 None None)
           initialShop) \<noteq> cart initialShop"
  using addToCart_admin_unchanged[of "sampleUser admin"
          "sampleProduct ''p1'' 1000 None None" initialShop]
        addToCart_admin_unchanged[of "sampleUser customer"
          "sampleProduct ''p1'' 1000 None None" initialShop]
  by (simp add: sampleUser_def initialShop_def)


section \<open>Checkout totals\<close>


end
